theory Spec2Isabelle
  imports Complex_Main "HOL-Library.Word"
begin

section \<open>pdfquicktext/writer.py: data model\<close>

text \<open>
  The module edits the content stream of one page of a PDF through the pikepdf object
  model. The embedding keeps the module's own logic (the checks, the order of the
  assignments, the arithmetic, the splice) and represents the pikepdf objects by the
  data the module reads and writes: a page is its media box, its font resource table and
  its decoded content stream; a document is the list of its pages and the objects made
  indirect in it.

  Python floats are modelled by exact rationals, so the theorems below speak about the
  arithmetic the code writes down, not about rounding. A number read from the PDF keeps
  the Python type pikepdf gives it, since the arithmetic of the source depends on it.
\<close>

subsection \<open>The font enumeration (class BaseFont)\<close>

datatype BaseFont =
    courier
  | courierbold
  | courierboldoblique
  | courieroblique
  | helvetica
  | helveticabold
  | helveticaboldoblique
  | helveticaoblique
  | timesroman
  | timesbold
  | timesitalic
  | timesbolditalic
  | symbol
  | zapfdingbats

text \<open>The member table of the enumeration: each member's name with the member.\<close>

definition BaseFont_members :: "(string \<times> BaseFont) list" where
  "BaseFont_members =
    [(''courier'', courier),
     (''courierbold'', courierbold),
     (''courierboldoblique'', courierboldoblique),
     (''courieroblique'', courieroblique),
     (''helvetica'', helvetica),
     (''helveticabold'', helveticabold),
     (''helveticaboldoblique'', helveticaboldoblique),
     (''helveticaoblique'', helveticaoblique),
     (''timesroman'', timesroman),
     (''timesbold'', timesbold),
     (''timesitalic'', timesitalic),
     (''timesbolditalic'', timesbolditalic),
     (''symbol'', symbol),
     (''zapfdingbats'', zapfdingbats)]"

text \<open>\<^verbatim>\<open>font.value\<close>: the PostScript name of a member.\<close>

fun BaseFont_value :: "BaseFont \<Rightarrow> string" where
  "BaseFont_value courier = ''/Courier''"
| "BaseFont_value courierbold = ''/Courier-Bold''"
| "BaseFont_value courierboldoblique = ''/Courier-BoldOblique''"
| "BaseFont_value courieroblique = ''/Courier-Oblique''"
| "BaseFont_value helvetica = ''/Helvetica''"
| "BaseFont_value helveticabold = ''/Helvetica-Bold''"
| "BaseFont_value helveticaboldoblique = ''/Helvetica-BoldOblique''"
| "BaseFont_value helveticaoblique = ''/Helvetica-Oblique''"
| "BaseFont_value timesroman = ''/Times-Roman''"
| "BaseFont_value timesbold = ''/Times-Bold''"
| "BaseFont_value timesitalic = ''/Times-Italic''"
| "BaseFont_value timesbolditalic = ''/Times-BoldItalic''"
| "BaseFont_value symbol = ''/Symbol''"
| "BaseFont_value zapfdingbats = ''/ZapfDingbats''"

subsection \<open>Exceptions\<close>

text \<open>
  \<open>PDFQuickTextError\<close> is the module's own exception class and carries its message; the
  others are the built-in exceptions the module's statements raise. \<open>KeyError\<close> carries
  the rejected key (the message of the source is the key's \<open>repr\<close> followed by
  \<open>is not a BaseFont enum key\<close>), \<open>AttributeError\<close> the name of the missing attribute.
\<close>

datatype error =
    PDFQuickTextError string
  | KeyError string
  | AttributeError string
  | IndexError
  | ValueError
  | TypeError

definition NoPageOpen :: error where
  "NoPageOpen = PDFQuickTextError ''A page must be opened prior to this operation.''"

definition PageAlreadyOpen :: error where
  "PageAlreadyOpen = PDFQuickTextError
     ''A page is already open and must be closed prior to opening a new page.''"

subsection \<open>Instructions, pages, documents, sessions\<close>

text \<open>
  An operand of a content stream instruction. \<open>PyNone\<close> is Python's \<open>None\<close>, which the
  source can place in an operand list (see \<open>add_font\<close>).
\<close>

datatype operand = Num rat | Name string | Str string | PyNone

text \<open>An instruction is the pair (operands, operator) that the source unpacks.\<close>

type_synonym instruction = "operand list \<times> string"

record Dictionary =
  Type :: string
  Subtype :: string
  BaseFont_entry :: string

text \<open>
  A number of a PDF array as Python sees it: pikepdf hands an integer over as \<open>int\<close>
  and a real number as \<open>decimal.Decimal\<close>.
\<close>

datatype number = PyInt int | Decimal rat

text \<open>
  The bytes that \<open>pikepdf.unparse_content_stream\<close> produces, represented by the
  instructions they encode.
\<close>

datatype encoded = Encoded "instruction list"

text \<open>
  What a page holds under \<open>/Contents\<close>: a content stream, here with its decoded
  instructions, or a string object, which is what pikepdf makes of Python \<open>bytes\<close>
  assigned to the key.
\<close>

datatype contents = ContentStream "instruction list" | ContentString encoded

text \<open>
  \<open>MediaBox\<close> is \<open>None\<close> for a page that declares no media box, \<open>Font\<close> is \<open>None\<close>
  for a page whose resources hold no \<open>/Font\<close> dictionary.
\<close>

record page =
  MediaBox :: "number list option"
  Font :: "(string \<rightharpoonup> Dictionary) option"
  Contents :: contents

record pdf =
  pages :: "page list"
  indirect_objects :: "Dictionary list"

text \<open>
  The session object. \<open>page_object\<close> is a reference into the document (the position of
  the page in \<open>pages\<close>), so that writing through it changes the document, as in the
  source. \<open>current_page\<close> is the attribute \<open>_current_page\<close>, \<open>page_instructions\<close> the
  attribute \<open>_page_instructions\<close>.
\<close>

type_synonym bytes = "8 word list"

record PDFFactory =
  pdf_bytes :: bytes
  pdf_object :: pdf
  page_object :: "nat option"
  current_page :: "int option"
  page_instructions :: "instruction list option"

definition DPI :: rat where
  "DPI = 72"

text \<open>The font argument of the public operations: \<open>Union[str, BaseFont]\<close>.\<close>

datatype font_arg = FontKey string | FontEnum BaseFont

section \<open>Operations\<close>

text \<open>
  Every method returns its outcome (\<open>Inl\<close> the exception raised, \<open>Inr\<close> the value
  returned) together with the session as the method leaves it, so that what a failing
  call has already assigned stays visible.
\<close>

subsection \<open>Construction\<close>

text \<open>
  Reading an attribute of the instance: the instance dictionary holds what \<open>__init__\<close>
  has assigned so far; the class defines \<open>DPI\<close>, \<open>current_page\<close> and the methods, none
  of which is read here, so a name missing from the dictionary raises \<open>AttributeError\<close>.
\<close>

definition getattr_self :: "(string \<rightharpoonup> 'v) \<Rightarrow> string \<Rightarrow> error + 'v" where
  "getattr_self d name = (case d name of None \<Rightarrow> Inl (AttributeError name) | Some v \<Rightarrow> Inr v)"

text \<open>
  \<open>__init__\<close>, with the parser \<open>pikepdf.open\<close> as a parameter. The first statement
  assigns \<open>pdf_bytes\<close>; the second reads \<open>self.pdf_path\<close>.
\<close>

definition init :: "(bytes \<Rightarrow> error + pdf) \<Rightarrow> bytes \<Rightarrow> error + PDFFactory" where
  "init pikepdf_open bs =
    (let d = [''pdf_bytes'' \<mapsto> bs] in
     case getattr_self d ''pdf_path'' of
       Inl e \<Rightarrow> Inl e
     | Inr src \<Rightarrow>
         (case pikepdf_open src of
            Inl e \<Rightarrow> Inl e
          | Inr doc \<Rightarrow>
              Inr \<lparr>pdf_bytes = bs, pdf_object = doc, page_object = None,
                   current_page = None, page_instructions = None\<rparr>))"

subsection \<open>Page lifecycle\<close>

text \<open>
  \<open>pdf_object.pages[page_ix]\<close>: a negative index counts from the end; an index that
  does not fit the signed 64-bit integer of the binding is refused with \<open>TypeError\<close>.
\<close>

definition pages_getitem :: "page list \<Rightarrow> int \<Rightarrow> error + nat" where
  "pages_getitem ps i =
    (if i < - (2 ^ 63) \<or> 2 ^ 63 \<le> i then Inl TypeError
     else if 0 \<le> i \<and> i < int (length ps) then Inr (nat i)
     else if i < 0 \<and> - int (length ps) \<le> i then Inr (nat (int (length ps) + i))
     else Inl IndexError)"

text \<open>The page a reference points to.\<close>

definition deref :: "PDFFactory \<Rightarrow> nat \<Rightarrow> page" where
  "deref s p = pages (pdf_object s) ! p"

definition store_page :: "PDFFactory \<Rightarrow> nat \<Rightarrow> page \<Rightarrow> PDFFactory" where
  "store_page s p pg = s\<lparr>pdf_object := (pdf_object s)\<lparr>pages := (pages (pdf_object s))[p := pg]\<rparr>\<rparr>"

text \<open>
  \<open>pikepdf.parse_content_stream\<close> decodes the content stream of a page; a page whose
  \<open>/Contents\<close> is a string object has no content stream and parses to no instruction.
  \<open>pikepdf.unparse_content_stream\<close> encodes instructions into bytes.
\<close>

definition parse_content_stream :: "page \<Rightarrow> instruction list" where
  "parse_content_stream pg =
    (case Contents pg of ContentStream ins \<Rightarrow> ins | ContentString bs \<Rightarrow> [])"

definition unparse_content_stream :: "instruction list \<Rightarrow> encoded" where
  "unparse_content_stream ins = Encoded ins"

definition assert_page_is_open :: "PDFFactory \<Rightarrow> error + unit" where
  "assert_page_is_open s =
    (if page_object s = None then Inl NoPageOpen else Inr ())"

definition open_page :: "PDFFactory \<Rightarrow> int \<Rightarrow> (error + unit) \<times> PDFFactory" where
  "open_page s page_ix =
    (if current_page s \<noteq> None then (Inl PageAlreadyOpen, s)
     else
       let s1 = s\<lparr>current_page := Some page_ix\<rparr> in
       case pages_getitem (pages (pdf_object s1)) page_ix of
         Inl e \<Rightarrow> (Inl e, s1)
       | Inr p \<Rightarrow>
           let s2 = s1\<lparr>page_object := Some p\<rparr> in
           (Inr (), s2\<lparr>page_instructions := Some (parse_content_stream (deref s2 p))\<rparr>))"

text \<open>
  \<open>_close_page\<close> assigns the bytes to \<open>page_object.Contents\<close>, which stores them as a
  string object.
\<close>

definition close_page :: "PDFFactory \<Rightarrow> (error + unit) \<times> PDFFactory" where
  "close_page s =
    (case assert_page_is_open s of
       Inl e \<Rightarrow> (Inl e, s)
     | Inr _ \<Rightarrow>
         (case page_instructions s of
            None \<Rightarrow> (Inl TypeError, s)
          | Some ins \<Rightarrow>
              let content_stream = unparse_content_stream ins;
                  p = the (page_object s);
                  s1 = store_page s p ((deref s p)\<lparr>Contents := ContentString content_stream\<rparr>)
              in (Inr (), s1\<lparr>current_page := None, page_instructions := None,
                               page_object := None\<rparr>)))"

subsection \<open>Page dimensions\<close>

definition get_page_dimension :: "PDFFactory \<Rightarrow> (error + number list) \<times> PDFFactory" where
  "get_page_dimension s =
    (case assert_page_is_open s of
       Inl e \<Rightarrow> (Inl e, s)
     | Inr _ \<Rightarrow>
         (case MediaBox (deref s (the (page_object s))) of
            Some box \<Rightarrow> (Inr box, s)
          | None \<Rightarrow> (Inr [PyInt 0, PyInt 0, PyInt 612, PyInt 792], s)))"

subsection \<open>Font registration\<close>

text \<open>\<open>BaseFont[font]\<close>: the member of that name, or \<open>KeyError\<close>.\<close>

definition BaseFont_getitem :: "string \<Rightarrow> BaseFont option" where
  "BaseFont_getitem key = map_of BaseFont_members key"

definition resolve_font :: "font_arg \<Rightarrow> error + BaseFont" where
  "resolve_font font =
    (case font of
       FontKey key \<Rightarrow>
         (case BaseFont_getitem key of None \<Rightarrow> Inl (KeyError key) | Some f \<Rightarrow> Inr f)
     | FontEnum f \<Rightarrow> Inr f)"

text \<open>
  \<open>_add_font\<close>. Reading \<open>page_object.resources.Font\<close> raises \<open>AttributeError\<close> on a
  page without a \<open>/Font\<close> dictionary. The early \<open>return\<close> of the source returns no
  value, that is \<open>None\<close>; the last line returns the name.
\<close>

definition add_font :: "PDFFactory \<Rightarrow> font_arg \<Rightarrow> (error + operand) \<times> PDFFactory" where
  "add_font s font =
    (case assert_page_is_open s of
       Inl e \<Rightarrow> (Inl e, s)
     | Inr _ \<Rightarrow>
         (case resolve_font font of
            Inl e \<Rightarrow> (Inl e, s)
          | Inr f \<Rightarrow>
              let pdf_font = BaseFont_value f;
                  p = the (page_object s);
                  pg = deref s p
              in case Font pg of
                   None \<Rightarrow> (Inl (AttributeError ''Font''), s)
                 | Some fonts \<Rightarrow>
                     if pdf_font \<in> dom fonts then (Inr PyNone, s)
                     else
                       let font_dict = \<lparr>Type = ''/Font'', Subtype = ''/Type1'',
                                         BaseFont_entry = pdf_font\<rparr>;
                           s1 = s\<lparr>pdf_object := (pdf_object s)
                                   \<lparr>indirect_objects :=
                                      indirect_objects (pdf_object s) @ [font_dict]\<rparr>\<rparr>;
                           s2 = store_page s1 p
                                  ((deref s1 p)\<lparr>Font := Some (fonts(pdf_font \<mapsto> font_dict))\<rparr>)
                       in (Inr (Name pdf_font), s2)))"

subsection \<open>Building and splicing instructions\<close>

definition make_text_instructions ::
  "PDFFactory \<Rightarrow> string \<Rightarrow> rat \<Rightarrow> rat \<Rightarrow> rat \<Rightarrow> font_arg
    \<Rightarrow> (error + instruction list) \<times> PDFFactory" where
  "make_text_instructions s text x y sz font =
    (case add_font s font of
       (Inl e, s1) \<Rightarrow> (Inl e, s1)
     | (Inr pdf_font, s1) \<Rightarrow>
         (Inr [([], ''BT''),
               ([pdf_font, Num sz], ''Tf''),
               ([Num 1, Num 0, Num 0, Num 1, Num x, Num y], ''Tm''),
               ([Str text], ''Tj''),
               ([], ''ET'')], s1))"

text \<open>
  The loop of \<open>_insert_new_instructions\<close>: \<open>insert_index\<close> starts at 0 and becomes
  \<open>i\<close> at every instruction whose operator is \<open>ET\<close>.
\<close>

definition insert_index :: "instruction list \<Rightarrow> nat" where
  "insert_index ins =
    fold (\<lambda>(i, (operands, op)) ix. if op = ''ET'' then i else ix) (enumerate 0 ins) 0"

definition insert_new_instructions ::
  "PDFFactory \<Rightarrow> instruction list \<Rightarrow> (error + unit) \<times> PDFFactory" where
  "insert_new_instructions s new =
    (case page_instructions s of
       None \<Rightarrow> (Inl TypeError, s)
     | Some ins \<Rightarrow>
         let ix = insert_index ins
         in (Inr (), s\<lparr>page_instructions := Some (take ix ins @ new @ drop ix ins)\<rparr>))"

definition add_text_xy_points ::
  "PDFFactory \<Rightarrow> string \<Rightarrow> rat \<Rightarrow> rat \<Rightarrow> rat \<Rightarrow> font_arg \<Rightarrow> (error + unit) \<times> PDFFactory" where
  "add_text_xy_points s text x y sz font =
    (case make_text_instructions s text x y sz font of
       (Inl e, s1) \<Rightarrow> (Inl e, s1)
     | (Inr instructions, s1) \<Rightarrow> insert_new_instructions s1 instructions)"

subsection \<open>Public text placement\<close>

text \<open>
  The subtraction \<open>y_top - DPI * inches_from_top\<close>: the right operand is a float; an
  \<open>int\<close> on the left gives a float, a \<open>Decimal\<close> on the left raises \<open>TypeError\<close>.
\<close>

definition number_minus_float :: "number \<Rightarrow> rat \<Rightarrow> error + rat" where
  "number_minus_float a b =
    (case a of PyInt n \<Rightarrow> Inr (of_int n - b) | Decimal d \<Rightarrow> Inl TypeError)"

text \<open>
  \<open>add_text\<close> unpacks the page dimensions into four values, which raises \<open>ValueError\<close>
  when the media box does not have four entries, and computes both coordinates before
  it builds the instructions.
\<close>

definition add_text ::
  "PDFFactory \<Rightarrow> string \<Rightarrow> rat \<Rightarrow> rat \<Rightarrow> rat \<Rightarrow> font_arg \<Rightarrow> (error + unit) \<times> PDFFactory" where
  "add_text s text inches_from_left inches_from_top sz font =
    (case get_page_dimension s of
       (Inl e, s1) \<Rightarrow> (Inl e, s1)
     | (Inr dims, s1) \<Rightarrow>
         (case dims of
            [x_left, y_bottom, x_right, y_top] \<Rightarrow>
              let x = DPI * inches_from_left in
              (case number_minus_float y_top (DPI * inches_from_top) of
                 Inl e \<Rightarrow> (Inl e, s1)
               | Inr y \<Rightarrow> add_text_xy_points s1 text x y sz font)
          | _ \<Rightarrow> (Inl ValueError, s1)))"

definition add_text_cm ::
  "PDFFactory \<Rightarrow> string \<Rightarrow> rat \<Rightarrow> rat \<Rightarrow> rat \<Rightarrow> font_arg \<Rightarrow> (error + unit) \<times> PDFFactory" where
  "add_text_cm s text cm_from_left cm_from_top sz font =
    (let inches_from_left = 2.54 * cm_from_left;
         inches_from_top = 2.54 * cm_from_top
     in add_text s text inches_from_left inches_from_top sz font)"

section \<open>Session coherence\<close>

text \<open>
  The three page attributes of a session are either all \<open>None\<close> (no page open) or all
  set (a page open).
\<close>

definition coherent :: "PDFFactory \<Rightarrow> bool" where
  "coherent s =
    ((page_object s = None \<and> current_page s = None \<and> page_instructions s = None)
     \<or> (page_object s \<noteq> None \<and> current_page s \<noteq> None \<and> page_instructions s \<noteq> None))"

section \<open>Example documents\<close>

text \<open>A Letter page with an integer media box and an empty \<open>/Font\<close> dictionary.\<close>

definition letter_page :: page where
  "letter_page = \<lparr>MediaBox = Some [PyInt 0, PyInt 0, PyInt 612, PyInt 792],
     Font = Some Map.empty, Contents = ContentStream []\<rparr>"

text \<open>A fresh Letter page: no \<open>/Font\<close> dictionary in its resources.\<close>

definition fresh_page :: page where
  "fresh_page = letter_page\<lparr>Font := None\<rparr>"

text \<open>An A4 page, whose media box has real numbers.\<close>

definition a4_page :: page where
  "a4_page = letter_page\<lparr>MediaBox := Some [PyInt 0, PyInt 0, Decimal 595.28, Decimal 841.89]\<rparr>"

text \<open>A page that declares no media box.\<close>

definition bare_page :: page where
  "bare_page = letter_page\<lparr>MediaBox := None\<rparr>"

definition one_page_pdf :: pdf where
  "one_page_pdf = \<lparr>pages = [letter_page], indirect_objects = []\<rparr>"

text \<open>The session as the last three assignments of \<open>__init__\<close> leave it.\<close>

definition closed_session :: PDFFactory where
  "closed_session = \<lparr>pdf_bytes = [], pdf_object = one_page_pdf, page_object = None,
     current_page = None, page_instructions = None\<rparr>"

text \<open>The same session with its page open.\<close>

definition open_session :: PDFFactory where
  "open_session = closed_session\<lparr>current_page := Some 0, page_object := Some 0,
     page_instructions := Some []\<rparr>"

text \<open>Sessions open on the page without a media box and on the A4 page.\<close>

definition bare_session :: PDFFactory where
  "bare_session = open_session\<lparr>pdf_object := \<lparr>pages = [bare_page], indirect_objects = []\<rparr>\<rparr>"

definition a4_session :: PDFFactory where
  "a4_session = open_session\<lparr>pdf_object := \<lparr>pages = [a4_page], indirect_objects = []\<rparr>\<rparr>"

text \<open>A session with no page open on a document whose only page is the fresh page.\<close>

definition fresh_session :: PDFFactory where
  "fresh_session = closed_session\<lparr>pdf_object := \<lparr>pages = [fresh_page], indirect_objects = []\<rparr>\<rparr>"

section \<open>The splice point\<close>

text \<open>
  What the loop of \<open>_insert_new_instructions\<close> computes: the position of the last
  \<open>ET\<close> itself, and 0 when there is none.
\<close>

lemma insert_index_snoc:
  "insert_index (ins @ [(a, op)]) = (if op = ''ET'' then length ins else insert_index ins)"
  by (simp add: insert_index_def enumerate_append_eq)

lemma insert_index_no_ET:
  "\<forall>i \<in> set ins. snd i \<noteq> ''ET'' \<Longrightarrow> insert_index ins = 0"
proof (induction ins rule: rev_induct)
  case Nil
  show ?case by (simp add: insert_index_def)
next
  case (snoc x xs)
  obtain a op where x: "x = (a, op)" by (cases x)
  with snoc.prems have "op \<noteq> ''ET''" by simp
  with snoc x show ?case by (simp add: insert_index_snoc)
qed

lemma insert_index_last_ET:
  "\<forall>i \<in> set ys. snd i \<noteq> ''ET'' \<Longrightarrow> insert_index (xs @ (a, ''ET'') # ys) = length xs"
proof (induction ys rule: rev_induct)
  case Nil
  show ?case using insert_index_snoc [of xs a "''ET''"] by simp
next
  case (snoc y ys)
  obtain b op where y: "y = (b, op)" by (cases y)
  have "insert_index ((xs @ (a, ''ET'') # ys) @ [(b, op)]) = insert_index (xs @ (a, ''ET'') # ys)"
    using snoc.prems y by (simp only: insert_index_snoc) auto
  then show ?case using snoc y by simp
qed

text \<open>
  So the block goes in front of the last \<open>ET\<close>: the instructions before it, the new
  block, then that \<open>ET\<close> and what follows it.
\<close>

lemma insert_new_instructions_splice:
  assumes "page_instructions s = Some (xs @ (a, ''ET'') # ys)"
    and "\<forall>i \<in> set ys. snd i \<noteq> ''ET''"
  shows "insert_new_instructions s new
    = (Inr (), s\<lparr>page_instructions := Some (xs @ new @ (a, ''ET'') # ys)\<rparr>)"
  using assms by (simp add: insert_new_instructions_def insert_index_last_ET)

text \<open>
  C1. The block is not placed after the last \<open>ET\<close>. On a page whose instructions are
  \<open>BT, Tj, ET, Q\<close> (the last \<open>ET\<close> at index 2), the new block \<open>BT, Tj, ET\<close> starts at
  index 2, not 3, and the old \<open>ET\<close> follows it: the new text object is nested inside the
  old one.
\<close>

theorem insert_new_instructions_before_last_ET:
  "insert_new_instructions
     (open_session\<lparr>page_instructions :=
        Some [([], ''BT''), ([Str ''old''], ''Tj''), ([], ''ET''), ([], ''Q'')]\<rparr>)
     [([], ''BT''), ([Str ''new''], ''Tj''), ([], ''ET'')]
   = (Inr (),
      open_session\<lparr>page_instructions :=
        Some [([], ''BT''), ([Str ''old''], ''Tj''),
              ([], ''BT''), ([Str ''new''], ''Tj''), ([], ''ET''),
              ([], ''ET''), ([], ''Q'')]\<rparr>)"
  by (simp add: insert_new_instructions_def insert_index_def open_session_def
      closed_session_def enumerate_eq_zip upt_rec)

section \<open>Unit conversion\<close>

lemma add_text_cm_eq:
  "add_text_cm s text cm_from_left cm_from_top sz font
    = add_text s text (2.54 * cm_from_left) (2.54 * cm_from_top) sz font"
  by (simp add: add_text_cm_def)

text \<open>
  C2. \<open>add_text_cm\<close> multiplies the centimetres by 2.54 where the conversion to inches
  divides. For 1 cm from the left and from the top of a Letter page it places the text
  at (182.88, 609.12); \<open>add_text\<close> with 1/2.54 inches places it at (3600/127, 96984/127),
  about (28.35, 763.65). The two calls do not produce the same instructions.
\<close>

theorem add_text_cm_multiplies:
  "page_instructions (snd (add_text_cm open_session ''Hello'' 1 1 11 (FontKey ''timesroman'')))
     = Some [([], ''BT''),
             ([Name ''/Times-Roman'', Num 11], ''Tf''),
             ([Num 1, Num 0, Num 0, Num 1, Num 182.88, Num 609.12], ''Tm''),
             ([Str ''Hello''], ''Tj''),
             ([], ''ET'')]
   \<and> page_instructions
        (snd (add_text open_session ''Hello'' (1 / 2.54) (1 / 2.54) 11 (FontKey ''timesroman'')))
     = Some [([], ''BT''),
             ([Name ''/Times-Roman'', Num 11], ''Tf''),
             ([Num 1, Num 0, Num 0, Num 1, Num (3600 / 127), Num (96984 / 127)], ''Tm''),
             ([Str ''Hello''], ''Tj''),
             ([], ''ET'')]
   \<and> add_text_cm open_session ''Hello'' 1 1 11 (FontKey ''timesroman'')
     \<noteq> add_text open_session ''Hello'' (1 / 2.54) (1 / 2.54) 11 (FontKey ''timesroman'')"
  by (simp add: add_text_cm_def add_text_def get_page_dimension_def assert_page_is_open_def
      add_text_xy_points_def make_text_instructions_def add_font_def resolve_font_def
      BaseFont_getitem_def BaseFont_members_def insert_new_instructions_def insert_index_def
      store_page_def deref_def DPI_def Let_def number_minus_float_def
      open_session_def closed_session_def one_page_pdf_def letter_page_def)

section \<open>Construction\<close>

text \<open>
  C3. Construction never succeeds: whatever the bytes and whatever the parser does,
  \<open>__init__\<close> raises \<open>AttributeError\<close> for \<open>pdf_path\<close>, an attribute that nothing assigns
  (the bytes were stored as \<open>pdf_bytes\<close>), before the parser is called.
\<close>

theorem init_raises:
  "init pikepdf_open bs = Inl (AttributeError ''pdf_path'')"
  by (simp add: init_def getattr_self_def)

section \<open>Font registration\<close>

text \<open>
  C4. On a page whose \<open>/Font\<close> dictionary does not have the font yet, the first call of
  \<open>_add_font\<close> registers it and returns the name \<open>/Times-Roman\<close>. The second call with
  the same font leaves the session unchanged but returns \<open>None\<close>, not the name, and the
  instructions built from it select the font \<open>None\<close>.
\<close>

theorem add_font_existing_returns_None:
  "add_font open_session (FontKey ''timesroman'')
     = (Inr (Name ''/Times-Roman''),
        open_session\<lparr>pdf_object :=
          \<lparr>pages = [letter_page\<lparr>Font := Some [''/Times-Roman'' \<mapsto>
                      \<lparr>Type = ''/Font'', Subtype = ''/Type1'',
                         BaseFont_entry = ''/Times-Roman''\<rparr>]\<rparr>],
           indirect_objects = [\<lparr>Type = ''/Font'', Subtype = ''/Type1'',
                                  BaseFont_entry = ''/Times-Roman''\<rparr>]\<rparr>\<rparr>)
   \<and> add_font (snd (add_font open_session (FontKey ''timesroman''))) (FontKey ''timesroman'')
     = (Inr PyNone, snd (add_font open_session (FontKey ''timesroman'')))
   \<and> fst (make_text_instructions (snd (add_font open_session (FontKey ''timesroman'')))
            ''Hello'' 72 720 11 (FontKey ''timesroman''))
     = Inr [([], ''BT''),
            ([PyNone, Num 11], ''Tf''),
            ([Num 1, Num 0, Num 0, Num 1, Num 72, Num 720], ''Tm''),
            ([Str ''Hello''], ''Tj''),
            ([], ''ET'')]"
  by (simp add: add_font_def assert_page_is_open_def resolve_font_def make_text_instructions_def
      BaseFont_getitem_def BaseFont_members_def store_page_def deref_def Let_def
      open_session_def closed_session_def one_page_pdf_def letter_page_def)


lemma BaseFont_members_count:
  "length BaseFont_members = 14 \<and> distinct (map fst BaseFont_members)
   \<and> distinct (map snd BaseFont_members)"
  by (simp add: BaseFont_members_def)








section \<open>Placing text\<close>

lemma pages_getitem_valid:
  "pages_getitem ps i = Inr p \<Longrightarrow> p < length ps"
  by (auto simp: pages_getitem_def split: if_splits)

text \<open>
  Where the placement works: from a session with no page open, on a page that has a
  \<open>/Font\<close> dictionary without \<open>/Times-Roman\<close> and whose media box is absent or has the
  integer top 792, \<open>_open_page\<close> and then \<open>add_text "Hello" 1.0 1.0 11.0 "timesroman"\<close>
  succeed and the five instructions stand, in order and next to each other, at the
  splice point of the page's former instructions.
\<close>

lemma add_text_hello_with_font_dictionary:
  fixes s :: PDFFactory and page_ix :: int and p :: nat
  defines "pg \<equiv> pages (pdf_object s) ! p"
    and "s1 \<equiv> snd (open_page s page_ix)"
  defines "old \<equiv> parse_content_stream pg"
  assumes "current_page s = None"
    and "pages_getitem (pages (pdf_object s)) page_ix = Inr p"
    and "MediaBox pg = None
         \<or> (\<exists>x_left y_bottom x_right.
               MediaBox pg = Some [x_left, y_bottom, x_right, PyInt 792])"
    and "Font pg = Some fonts"
    and "''/Times-Roman'' \<notin> dom fonts"
  shows "fst (open_page s page_ix) = Inr ()
    \<and> fst (add_text s1 ''Hello'' 1 1 11 (FontKey ''timesroman'')) = Inr ()
    \<and> page_instructions (snd (add_text s1 ''Hello'' 1 1 11 (FontKey ''timesroman'')))
       = Some (take (insert_index old) old
               @ [([], ''BT''),
                  ([Name ''/Times-Roman'', Num 11], ''Tf''),
                  ([Num 1, Num 0, Num 0, Num 1, Num 72, Num 720], ''Tm''),
                  ([Str ''Hello''], ''Tj''),
                  ([], ''ET'')]
               @ drop (insert_index old) old)"
proof -
  have p: "p < length (pages (pdf_object s))"
    using assms(5) by (rule pages_getitem_valid)
  show ?thesis
    using assms p
    by (auto simp add: open_page_def add_text_def get_page_dimension_def
        assert_page_is_open_def add_text_xy_points_def make_text_instructions_def
        add_font_def resolve_font_def BaseFont_getitem_def BaseFont_members_def
        insert_new_instructions_def store_page_def deref_def number_minus_float_def
        DPI_def Let_def)
qed

text \<open>
  What \<open>_close_page\<close> leaves behind: the page's \<open>/Contents\<close> is then a string object,
  so the page parses to no instruction when it is opened again.
\<close>

lemma close_page_contents:
  assumes "page_object s = Some p" and "p < length (pages (pdf_object s))"
    and "page_instructions s = Some ins"
  shows "fst (close_page s) = Inr ()
    \<and> Contents (pages (pdf_object (snd (close_page s))) ! p) = ContentString (Encoded ins)
    \<and> parse_content_stream (pages (pdf_object (snd (close_page s))) ! p) = []"
  using assms
  by (simp add: close_page_def assert_page_is_open_def store_page_def deref_def
      unparse_content_stream_def parse_content_stream_def Let_def)

text \<open>
  C6. On a fresh Letter page (media box (0, 0, 612, 792), no \<open>/Font\<close> dictionary yet)
  \<open>_open_page\<close> succeeds, but \<open>add_text "Hello" 1.0 1.0 11.0 "timesroman"\<close> raises
  \<open>AttributeError\<close> when \<open>_add_font\<close> reads the page's \<open>/Font\<close> dictionary: the session is
  as \<open>_open_page\<close> left it and the instruction sequence holds none of the five
  instructions.
\<close>

theorem add_text_fresh_page_raises:
  "open_page fresh_session 0
     = (Inr (), fresh_session\<lparr>current_page := Some 0, page_object := Some 0,
                                page_instructions := Some []\<rparr>)
   \<and> add_text (snd (open_page fresh_session 0)) ''Hello'' 1 1 11 (FontKey ''timesroman'')
     = (Inl (AttributeError ''Font''), snd (open_page fresh_session 0))
   \<and> page_instructions
        (snd (add_text (snd (open_page fresh_session 0)) ''Hello'' 1 1 11
               (FontKey ''timesroman'')))
     = Some []"
  by (simp add: open_page_def add_text_def get_page_dimension_def pages_getitem_def
      assert_page_is_open_def add_text_xy_points_def make_text_instructions_def
      add_font_def resolve_font_def BaseFont_getitem_def BaseFont_members_def
      parse_content_stream_def deref_def number_minus_float_def DPI_def Let_def
      fresh_session_def fresh_page_def closed_session_def letter_page_def)

section \<open>Operations that need an open page\<close>

text \<open>
  C7. With no page open (\<open>page_object\<close> is \<open>None\<close>), \<open>add_text\<close>, \<open>add_text_cm\<close>,
  \<open>_add_font\<close>, \<open>get_page_dimension\<close> and \<open>_close_page\<close> each raise the error with the
  message "A page must be opened prior to this operation." and leave the session as it
  was.
\<close>

theorem requires_open_page:
  "page_object s = None \<Longrightarrow>
     add_text s text l t sz font = (Inl NoPageOpen, s)
   \<and> add_text_cm s text l t sz font = (Inl NoPageOpen, s)
   \<and> add_font s font = (Inl NoPageOpen, s)
   \<and> get_page_dimension s = (Inl NoPageOpen, s)
   \<and> close_page s = (Inl NoPageOpen, s)"
  by (simp add: add_text_def add_text_cm_def add_font_def get_page_dimension_def
      close_page_def assert_page_is_open_def)

theorem requires_open_page_witness:
  "page_object closed_session = None
   \<and> add_text closed_session ''Hello'' 1 1 11 (FontKey ''timesroman'')
       = (Inl NoPageOpen, closed_session)
   \<and> add_text_cm closed_session ''Hello'' 1 1 11 (FontKey ''timesroman'')
       = (Inl NoPageOpen, closed_session)
   \<and> add_font closed_session (FontKey ''timesroman'') = (Inl NoPageOpen, closed_session)
   \<and> get_page_dimension closed_session = (Inl NoPageOpen, closed_session)
   \<and> close_page closed_session = (Inl NoPageOpen, closed_session)"
  using requires_open_page [of closed_session "''Hello''" 1 1 11 "FontKey ''timesroman''"]
  by (simp add: closed_session_def)

text \<open>
  C8. In every session whose \<open>_current_page\<close> is set, which covers every session with a
  page open, \<open>_open_page\<close> with any index raises the error with the message
  "A page is already open and must be closed prior to opening a new page." and leaves
  the whole session, so also the open page, its index and its instructions, unchanged.
\<close>

theorem open_page_already_open:
  "current_page s \<noteq> None \<Longrightarrow> open_page s page_ix = (Inl PageAlreadyOpen, s)"
  by (simp add: open_page_def)

theorem open_page_already_open_witness:
  "current_page open_session \<noteq> None
   \<and> open_page open_session 0 = (Inl PageAlreadyOpen, open_session)"
  using open_page_already_open [of open_session 0]
  by (simp add: open_session_def closed_session_def)

section \<open>Page dimensions\<close>

text \<open>
  C9. With a page open, \<open>get_page_dimension\<close> returns the entries of the page's media box
  as they are when the page declares one (four values for a box of four entries), and
  (0, 0, 612, 792) when it declares none; the session is unchanged.
\<close>

theorem get_page_dimension_media_box:
  "page_object s = Some p \<Longrightarrow> p < length (pages (pdf_object s)) \<Longrightarrow>
   get_page_dimension s =
     (Inr (case MediaBox (pages (pdf_object s) ! p) of
             Some box \<Rightarrow> box
           | None \<Rightarrow> [PyInt 0, PyInt 0, PyInt 612, PyInt 792]), s)"
  by (simp add: get_page_dimension_def assert_page_is_open_def deref_def split: option.splits)

theorem get_page_dimension_media_box_witness:
  "page_object a4_session = Some 0
   \<and> get_page_dimension a4_session
       = (Inr [PyInt 0, PyInt 0, Decimal 595.28, Decimal 841.89], a4_session)
   \<and> page_object bare_session = Some 0
   \<and> MediaBox (pages (pdf_object bare_session) ! 0) = None
   \<and> get_page_dimension bare_session
       = (Inr [PyInt 0, PyInt 0, PyInt 612, PyInt 792], bare_session)"
  using get_page_dimension_media_box [of a4_session 0]
    get_page_dimension_media_box [of bare_session 0]
  by (simp add: a4_session_def a4_page_def bare_session_def bare_page_def open_session_def
      closed_session_def letter_page_def)

section \<open>Coherence of the session\<close>

lemma open_page_coherent:
  "fst (open_page s page_ix) = Inr () \<Longrightarrow> coherent (snd (open_page s page_ix))"
  by (auto simp: open_page_def coherent_def Let_def split: if_splits sum.splits)

lemma close_page_coherent:
  "coherent s \<Longrightarrow> coherent (snd (close_page s))"
  by (auto simp: close_page_def coherent_def assert_page_is_open_def store_page_def Let_def
      split: option.splits)

lemma add_font_coherent:
  "coherent s \<Longrightarrow> coherent (snd (add_font s font))"
  by (auto simp: add_font_def coherent_def assert_page_is_open_def store_page_def Let_def
      split: sum.splits option.splits)

lemma insert_new_instructions_coherent:
  "coherent s \<Longrightarrow> coherent (snd (insert_new_instructions s new))"
  by (auto simp: insert_new_instructions_def coherent_def Let_def split: option.splits)

lemma add_text_xy_points_coherent:
  assumes "coherent s"
  shows "coherent (snd (add_text_xy_points s text x y sz font))"
proof (cases "add_font s font")
  case (Pair r s1)
  with assms have s1: "coherent s1"
    using add_font_coherent [of s font] by simp
  show ?thesis
  proof (cases r)
    case (Inl e)
    with Pair s1 show ?thesis
      by (simp add: add_text_xy_points_def make_text_instructions_def)
  next
    case (Inr pdf_font)
    with Pair s1 show ?thesis
      by (simp add: add_text_xy_points_def make_text_instructions_def
          insert_new_instructions_coherent)
  qed
qed

lemma get_page_dimension_state:
  "snd (get_page_dimension s) = s"
  by (simp add: get_page_dimension_def split: sum.splits option.splits)

lemma add_text_coherent:
  assumes "coherent s"
  shows "coherent (snd (add_text s text l t sz font))"
proof (cases "get_page_dimension s")
  case (Pair r s1)
  then have "s1 = s"
    using get_page_dimension_state [of s] by simp
  with Pair assms show ?thesis
    by (auto simp: add_text_def add_text_xy_points_coherent Let_def
        split: sum.splits list.splits)
qed

lemma add_text_cm_coherent:
  "coherent s \<Longrightarrow> coherent (snd (add_text_cm s text l t sz font))"
  by (simp add: add_text_cm_def add_text_coherent)

text \<open>
  C10. The three page attributes do not stay all \<open>None\<close> or all set. From a session with
  no page open on a document of one page, \<open>_open_page 5\<close> raises \<open>IndexError\<close> after it
  has assigned \<open>_current_page\<close>: the session is left with \<open>_current_page = 5\<close> and the
  other two attributes \<open>None\<close>. In that session the two checks disagree: \<open>_open_page\<close>
  reports that a page is already open, \<open>_close_page\<close> that no page is open.
\<close>

theorem open_page_failure_half_open:
  "coherent closed_session
   \<and> open_page closed_session 5 = (Inl IndexError, closed_session\<lparr>current_page := Some 5\<rparr>)
   \<and> \<not> coherent (closed_session\<lparr>current_page := Some 5\<rparr>)
   \<and> open_page (closed_session\<lparr>current_page := Some 5\<rparr>) 0
       = (Inl PageAlreadyOpen, closed_session\<lparr>current_page := Some 5\<rparr>)
   \<and> close_page (closed_session\<lparr>current_page := Some 5\<rparr>)
       = (Inl NoPageOpen, closed_session\<lparr>current_page := Some 5\<rparr>)"
  by (simp add: open_page_def close_page_def assert_page_is_open_def pages_getitem_def
      coherent_def closed_session_def one_page_pdf_def)

end
